theory Spec2Isabelle
  imports Main "HOL-Library.AList" "HOL-Library.Sublist"
begin

section \<open>Values shared by the handlers of \<open>main.go\<close>\<close>

text \<open>
  A \<open>net.Conn\<close> is an interface value; the handlers only store it, pass it on and close
  it, so a connection is modelled by its identity.
\<close>

type_synonym conn = nat

text \<open>
  Go errors. \<open>Wrap\<close> is an error that wraps another one (\<open>fmt.Errorf("...: %w", err)\<close>);
  \<open>errors.Is\<close> walks the chain of wrapped errors.
\<close>

datatype go_error = ErrUnexpectedEOF | ErrEOF | Err string | Wrap string go_error

fun errors_Is :: "go_error \<Rightarrow> go_error \<Rightarrow> bool" where
  "errors_Is (Wrap m e) target = (Wrap m e = target \<or> errors_Is e target)"
| "errors_Is e target = (e = target)"

text \<open>The logrus levels, and one log entry: its level, its message, its structured fields
  (\<open>WithFields\<close>) and the error attached to it (\<open>WithError\<close>).\<close>

datatype Level = PanicLevel | FatalLevel | ErrorLevel | WarnLevel | InfoLevel | DebugLevel | TraceLevel

record LogEntry =
  level :: Level
  message :: string
  data :: "(string \<times> string) list"
  cause :: "go_error option"

text \<open>
  \<open>http.Error(w, msg, code)\<close> sets the status code and writes the message followed by a
  newline as the body. The model records the call as the pair of code and body.
\<close>

type_synonym http_reply = "nat \<times> string"

definition StatusInternalServerError :: nat where
  "StatusInternalServerError = 500"

definition http_Error :: "string \<Rightarrow> nat \<Rightarrow> http_reply" where
  "http_Error msg code = (code, msg @ [CHR 0x0A])"

section \<open>The server and its session registry\<close>

text \<open>
  \<open>serv.Sessions\<close> is a Go map from the session id to the connection. It is an
  association list here, so that the keys can be listed as the refresh loop does;
  \<open>serv.Sessions[k] = c\<close> is \<open>AList.update\<close> and \<open>delete(serv.Sessions, k)\<close> is
  \<open>AList.delete\<close>. (Go iterates a map in no fixed order; the list fixes one.)
\<close>

record Server =
  Sessions :: "(string \<times> conn) list"
  deviceName :: string

text \<open>
  Modelled from the spec: \<open>serv.CloseSession\<close> is a method of package \<open>server\<close>, which is
  not among the source files. The spec (4.1, 4.2) gives its contract: \<open>remove(id)\<close> deletes
  the entry if present, and is a no-op otherwise; it reports no error.
\<close>

definition CloseSession :: "string \<Rightarrow> Server \<Rightarrow> Server" where
  "CloseSession id' s = s\<lparr>Sessions := AList.delete id' (Sessions s)\<rparr>"

text \<open>
  \<open>tun.CloseHandler\<close> (main.go, lines 208 to 211): it reads the id of the route and calls
  \<open>serv.CloseSession\<close>. It writes nothing to the response writer and has no error path:
  the reply of the handler is always absent.
\<close>

definition CloseHandler :: "string \<Rightarrow> Server \<Rightarrow> Server \<times> http_reply option" where
  "CloseHandler id' s = (CloseSession id' s, None)"

text \<open>
  Modelled from the spec: \<open>serv.SetDeviceName\<close> is a method of package \<open>server\<close>, which
  is not among the source files. The spec (4.6) calls its object the locally cached
  device name presented to session routing; the call stores its argument there.
\<close>

definition SetDeviceName :: "string \<Rightarrow> Server \<Rightarrow> Server" where
  "SetDeviceName n s = s\<lparr>deviceName := n\<rparr>"

text \<open>
  The handlers run concurrently (spec 5): while one session-open handler is blocked in
  the handling of its stream, directives of other requests and ticks of the refresh loop
  take effect on the server. A \<open>directive\<close> is one such effect, as one step: a
  session-close directive for an id, the registration made by another session-open
  directive, or a call of \<open>serv.SetDeviceName\<close>. \<open>meanwhile\<close> applies a sequence of them
  in the order in which they take effect; \<open>touches\<close> tells whether a directive names a
  given session id, and \<open>untouched\<close> that none of a sequence does.
\<close>

datatype directive = CloseDirective string | OpenDirective string conn | NameRefresh string

fun handle_directive :: "directive \<Rightarrow> Server \<Rightarrow> Server" where
  "handle_directive (CloseDirective i) s = CloseSession i s"
| "handle_directive (OpenDirective i c) s = s\<lparr>Sessions := AList.update i c (Sessions s)\<rparr>"
| "handle_directive (NameRefresh n) s = SetDeviceName n s"

fun meanwhile :: "directive list \<Rightarrow> Server \<Rightarrow> Server" where
  "meanwhile [] s = s"
| "meanwhile (d # ds) s = meanwhile ds (handle_directive d s)"

fun touches :: "string \<Rightarrow> directive \<Rightarrow> bool" where
  "touches k (CloseDirective i) = (i = k)"
| "touches k (OpenDirective i c) = (i = k)"
| "touches k (NameRefresh n) = False"

fun untouched :: "string \<Rightarrow> directive list \<Rightarrow> bool" where
  "untouched k [] = True"
| "untouched k (d # ds) = (\<not> touches k d \<and> untouched k ds)"

text \<open>
  Modelled from the spec: \<open>serv.HandleConn\<close> is a method of package \<open>server\<close>, which is
  not among the source files. The spec (4.3, 6) describes it as the shell/SFTP subsystem
  that consumes the raw stream and blocks until the session ends; it is handed the stream
  only, not the session id, and returns nothing, so it makes no change to the registry
  itself. How the session ends is its first argument. The directives that take effect
  while it blocks are its second argument: the server at its return is the server they
  leave.
\<close>

datatype ending = Success | ProtocolError | PeerDisconnect

definition HandleConn :: "ending \<Rightarrow> directive list \<Rightarrow> conn \<Rightarrow> Server \<Rightarrow> Server" where
  "HandleConn how ds c s = meanwhile ds s"

text \<open>
  \<open>tun.ConnHandler\<close> (main.go, lines 126 to 154). What the handler meets at run time is
  its input: whether the response writer is an \<open>http.Hijacker\<close>, the error of
  \<open>hj.Hijack()\<close> if any, the route variable \<open>id\<close>, the connection stored in the request
  context under \<open>"http-conn"\<close> (absent when the type assertion fails), how the session
  ends, and the directives that take effect during the session. What it does is its result: the server state, the \<open>http.Error\<close> reply if one is
  made, the log entries written, and the connections closed, in order.
\<close>

record ConnRequest =
  is_Hijacker :: bool
  Hijack_err :: "go_error option"
  vars_id :: string
  ctx_http_conn :: "conn option"
  session_end :: ending
  during :: "directive list"

record ConnResult =
  serv :: Server
  reply :: "http_reply option"
  logged :: "LogEntry list"
  closed :: "conn list"

definition ConnHandler :: "string \<Rightarrow> ConnRequest \<Rightarrow> Server \<Rightarrow> ConnResult" where
  "ConnHandler AgentVersion r s =
     (if \<not> is_Hijacker r then
        \<lparr>serv = s,
         reply = Some (http_Error ''webserver doesn't support hijacking'' StatusInternalServerError),
         logged = [], closed = []\<rparr>
      else case Hijack_err r of
        Some e \<Rightarrow>
          \<lparr>serv = s,
           reply = Some (http_Error ''failed to hijack connection'' StatusInternalServerError),
           logged = [], closed = []\<rparr>
      | None \<Rightarrow>
          (case ctx_http_conn r of
             None \<Rightarrow>
               \<lparr>serv = s, reply = None,
                logged = [\<lparr>level = WarnLevel, message = ''Type assertion failed'',
                           data = [(''version'', AgentVersion)], cause = None\<rparr>],
                closed = []\<rparr>
           | Some c \<Rightarrow>
               (let s1 = s\<lparr>Sessions := AList.update (vars_id r) c (Sessions s)\<rparr>;
                    s2 = HandleConn (session_end r) (during r) c s1
                in \<lparr>serv = s2, reply = None, logged = [], closed = [c]\<rparr>)))"

text \<open>
  The three ways in which the handler fails to obtain a raw duplex stream, and the one in
  which it obtains it and registers the session.
\<close>

definition no_raw_stream :: "ConnRequest \<Rightarrow> bool" where
  "no_raw_stream r =
     (\<not> is_Hijacker r \<or> Hijack_err r \<noteq> None \<or> ctx_http_conn r = None)"

definition registers :: "ConnRequest \<Rightarrow> conn \<Rightarrow> bool" where
  "registers r c = (is_Hijacker r \<and> Hijack_err r = None \<and> ctx_http_conn r = Some c)"

section \<open>The HTTP proxy handler\<close>

text \<open>
  \<open>r.URL\<close> is a pointer to a \<open>url.URL\<close>. The handler assigns a field through the
  pointer and then assigns the pointer itself, so the URLs live in a store of cells
  addressed by natural numbers, with the next free address; \<open>alloc\<close> is what returning
  the address of a new value does.
\<close>

record URL =
  Scheme :: string
  Host :: string
  Path :: string

type_synonym addr = nat

record Store =
  cells :: "addr \<Rightarrow> URL"
  free :: addr

definition alloc :: "URL \<Rightarrow> Store \<Rightarrow> addr \<times> Store" where
  "alloc u h = (free h, h\<lparr>cells := (cells h)(free h := u), free := Suc (free h)\<rparr>)"

text \<open>
  The request: the fields the handler reads. \<open>Header\<close> maps a canonical header name to
  its values; \<open>Header.Get\<close> returns the first value, or the empty string.
\<close>

record Request =
  RemoteAddr :: string
  Header :: "(string \<times> string list) list"
  URLp :: addr

definition Header_Get :: "(string \<times> string list) list \<Rightarrow> string \<Rightarrow> string" where
  "Header_Get h k = (case map_of h k of None \<Rightarrow> [] | Some [] \<Rightarrow> [] | Some (v # _) \<Rightarrow> v)"

text \<open>
  What the handler meets at run time: the result of \<open>net.Dial("tcp", ":80")\<close>, the
  function \<open>(*URL).Parse\<close> of the standard library (it resolves a reference against the
  base URL and returns a new URL value, or an error), the error of \<open>r.Write(in)\<close> if any,
  the result of \<open>ctr.Hijack()\<close>, and the error of \<open>io.Copy(out, in)\<close> if any.
\<close>

record ProxyEnv =
  Dial :: "go_error + conn"
  URL_Parse :: "URL \<Rightarrow> string \<Rightarrow> go_error + URL"
  Write_err :: "go_error option"
  Hijack :: "go_error + conn"
  Copy_err :: "go_error option"

text \<open>
  What the handler does: the store as it leaves it, the request as it leaves it, the URL
  of the request that \<open>r.Write\<close> serialises to the local service (read through \<open>r.URL\<close>
  when \<open>r.Write\<close> is called; it is recorded whether the write then succeeds or fails,
  since a failing write may already have sent part of the request, and is absent when
  \<open>r.Write\<close> is never called), the \<open>http.Error\<close> reply if one is made, the log entries, and the
  connections closed by the deferred calls, in order. A reply made after the hijack of
  step 3 is recorded like the others: it is the call of \<open>http.Error\<close> the handler makes
  on the response writer it has hijacked.
\<close>

record ProxyResult =
  store :: Store
  request :: Request
  written :: "URL option"
  preply :: "http_reply option"
  plogged :: "LogEntry list"
  pclosed :: "conn list"

text \<open>
  The closure \<open>replyError\<close> (lines 156 to 165): one entry at level error, carrying the
  error and the fields \<open>remote\<close>, \<open>namespace\<close>, \<open>path\<close> and \<open>version\<close>, then
  \<open>http.Error(w, msg, code)\<close>.
\<close>

definition replyError_entry :: "string \<Rightarrow> Request \<Rightarrow> go_error \<Rightarrow> string \<Rightarrow> LogEntry" where
  "replyError_entry AgentVersion r e msg =
     \<lparr>level = ErrorLevel, message = msg,
      data = [(''remote'', RemoteAddr r),
              (''namespace'', Header_Get (Header r) ''X-Namespace''),
              (''path'', Header_Get (Header r) ''X-Path''),
              (''version'', AgentVersion)],
      cause = Some e\<rparr>"

definition replyError ::
  "string \<Rightarrow> Store \<Rightarrow> Request \<Rightarrow> URL option \<Rightarrow> conn list \<Rightarrow> go_error \<Rightarrow> string \<Rightarrow> nat \<Rightarrow> ProxyResult" where
  "replyError AgentVersion h r w cl e msg code =
     \<lparr>store = h, request = r, written = w,
      preply = Some (http_Error msg code),
      plogged = [replyError_entry AgentVersion r e msg],
      pclosed = cl\<rparr>"

text \<open>
  \<open>tun.HTTPHandler\<close> (main.go, lines 155 to 207), statement by statement. After a
  successful parse, \<open>url\<close> is the address of a new cell; \<open>r.URL.Scheme = "http"\<close> writes
  to the cell \<open>r.URL\<close> points to at that moment; \<open>r.URL = url\<close> then redirects the
  pointer. The deferred \<open>out.Close()\<close> runs before the deferred \<open>in.Close()\<close>.
\<close>

definition HTTPHandler :: "string \<Rightarrow> ProxyEnv \<Rightarrow> Store \<Rightarrow> Request \<Rightarrow> ProxyResult" where
  "HTTPHandler AgentVersion env h r =
     (case Dial env of
        Inl e \<Rightarrow>
          replyError AgentVersion h r None [] e
            ''failed to connect to HTTP the server on device'' StatusInternalServerError
      | Inr in' \<Rightarrow>
          (case URL_Parse env (cells h (URLp r)) (Header_Get (Header r) ''X-Path'') of
             Inl e \<Rightarrow>
               replyError AgentVersion h r None [in'] e
                 ''failed to parse URL'' StatusInternalServerError
           | Inr u \<Rightarrow>
               (let (url, h1) = alloc u h;
                    h2 = h1\<lparr>cells := (cells h1)(URLp r := (cells h1 (URLp r))\<lparr>Scheme := ''http''\<rparr>)\<rparr>;
                    r1 = r\<lparr>URLp := url\<rparr>;
                    w = Some (cells h2 (URLp r1))
                in case Write_err env of
                     Some e \<Rightarrow>
                       replyError AgentVersion h2 r1 w [in'] e
                         ''failed to write request to the server on device''
                         StatusInternalServerError
                   | None \<Rightarrow>
                       (case Hijack env of
                         Inl e \<Rightarrow>
                           replyError AgentVersion h2 r1 w [in'] e
                             ''failed to hijack connection'' StatusInternalServerError
                       | Inr out \<Rightarrow>
                           (case Copy_err env of
                              None \<Rightarrow>
                                \<lparr>store = h2, request = r1, written = w, preply = None,
                                 plogged = [], pclosed = [out, in']\<rparr>
                            | Some e \<Rightarrow>
                                if errors_Is e ErrUnexpectedEOF then
                                  replyError AgentVersion h2 r1 w [out, in'] e
                                    ''failed to copy response from device service to client''
                                    StatusInternalServerError
                                else
                                  \<lparr>store = h2, request = r1, written = w, preply = None,
                                   plogged = [], pclosed = [out, in']\<rparr>)))))"

text \<open>
  The exchanges that fail before the hijack of the response writer, and those that reach
  the copy of step 4.
\<close>

definition fails_before_hijack :: "ProxyEnv \<Rightarrow> Store \<Rightarrow> Request \<Rightarrow> bool" where
  "fails_before_hijack env h r =
     (case Dial env of
        Inl e \<Rightarrow> True
      | Inr c \<Rightarrow>
          (case URL_Parse env (cells h (URLp r)) (Header_Get (Header r) ''X-Path'') of
             Inl e \<Rightarrow> True
           | Inr u \<Rightarrow> Write_err env \<noteq> None))"

definition reaches_copy :: "ProxyEnv \<Rightarrow> Store \<Rightarrow> Request \<Rightarrow> bool" where
  "reaches_copy env h r =
     (case Dial env of
        Inl e \<Rightarrow> False
      | Inr c \<Rightarrow>
          (case URL_Parse env (cells h (URLp r)) (Header_Get (Header r) ''X-Path'') of
             Inl e \<Rightarrow> False
           | Inr u \<Rightarrow> Write_err env = None \<and> (case Hijack env of Inl e \<Rightarrow> False | Inr out \<Rightarrow> True)))"

text \<open>
  The copy of step 4 ends with an unexpected end-of-stream: \<open>io.Copy\<close> returns an error
  that \<open>errors.Is\<close> recognises as \<open>io.ErrUnexpectedEOF\<close>.
\<close>

definition copy_unexpected_eof :: "ProxyEnv \<Rightarrow> bool" where
  "copy_unexpected_eof env =
     (case Copy_err env of None \<Rightarrow> False | Some e \<Rightarrow> errors_Is e ErrUnexpectedEOF)"

text \<open>\<open>strings.Contains\<close>: the second string occurs in the first.\<close>

fun Contains :: "string \<Rightarrow> string \<Rightarrow> bool" where
  "Contains [] sub = (sub = [])"
| "Contains (c # cs) sub = (prefix sub (c # cs) \<or> Contains cs sub)"

text \<open>
  The resolution of a reference that is an absolute path and nothing else (no scheme, no
  host, no query), as \<open>/status\<close> is: \<open>(*URL).Parse\<close> keeps the scheme and the host of the
  base and takes the path of the reference. It is the instance of \<open>URL_Parse\<close> at which
  the handler is evaluated below.
\<close>

definition Parse_abs_path :: "URL \<Rightarrow> string \<Rightarrow> go_error + URL" where
  "Parse_abs_path base ref = Inr (base\<lparr>Path := ref\<rparr>)"

section \<open>The agent, the connection identifier and the reconnection loop\<close>

record AuthData =
  Name :: string
  Namespace :: string

text \<open>
  The fields of the agent that \<open>NewAgentServer\<close> reads and writes: the session ids sent
  with the next authorization, the authentication data, and
  \<open>serverInfo.Endpoints.SSH\<close>.
\<close>

record Agent =
  sessions :: "string list"
  authData :: AuthData
  SSH :: string

text \<open>
  \<open>strings.Split(s, sep)\<close> for a separator that is not empty: the pieces between the
  occurrences of the separator, found from left to right without overlap. The second
  argument of \<open>Split_from\<close> counts the characters of a matched separator still to be
  skipped, the third is the piece read so far, reversed.
\<close>

fun Split_from :: "string \<Rightarrow> nat \<Rightarrow> string \<Rightarrow> string \<Rightarrow> string list" where
  "Split_from sep k cur [] = [rev cur]"
| "Split_from sep (Suc k) cur (c # cs) = Split_from sep k cur cs"
| "Split_from sep 0 cur (c # cs) =
     (if sep \<noteq> [] \<and> prefix sep (c # cs)
      then rev cur # Split_from sep (length sep - 1) [] cs
      else Split_from sep 0 (c # cur) cs)"

definition Split :: "string \<Rightarrow> string \<Rightarrow> string list" where
  "Split s sep = Split_from sep 0 [] s"

text \<open>
  \<open>strings.NewReplacer(old1, new1, ...).Replace(s)\<close> for keys that are not empty: at each
  position of \<open>s\<close>, from left to right, the first pair (in the order of the arguments)
  whose key starts there is replaced and the scan goes on behind the key; the replacement
  is not scanned again. The second argument of \<open>Replace_from\<close> counts the characters of
  a matched key still to be skipped.
\<close>

fun lookup_key :: "(string \<times> string) list \<Rightarrow> string \<Rightarrow> (string \<times> string) option" where
  "lookup_key [] s = None"
| "lookup_key ((old, new) # ps) s =
     (if old \<noteq> [] \<and> prefix old s then Some (old, new) else lookup_key ps s)"

fun Replace_from :: "(string \<times> string) list \<Rightarrow> nat \<Rightarrow> string \<Rightarrow> string" where
  "Replace_from ps k [] = []"
| "Replace_from ps (Suc k) (c # cs) = Replace_from ps k cs"
| "Replace_from ps 0 (c # cs) =
     (case lookup_key ps (c # cs) of
        Some (old, new) \<Rightarrow> new @ Replace_from ps (length old - 1) cs
      | None \<Rightarrow> c # Replace_from ps 0 cs)"

definition Replace :: "(string \<times> string) list \<Rightarrow> string \<Rightarrow> string" where
  "Replace ps s = Replace_from ps 0 s"

text \<open>
  The connection identifier (main.go, lines 224 to 232). The template is one string
  literal in the source; it is written in two pieces here. Indexing the result of
  \<open>strings.Split\<close> with \<open>[0]\<close> panics on an empty slice; \<open>None\<close> is that panic.
\<close>

definition sshid :: "string \<Rightarrow> string \<Rightarrow> string \<Rightarrow> string option" where
  "sshid namespace tenantName sshEndpoint =
     (case Split sshEndpoint '':'' of
        [] \<Rightarrow> None
      | host # _ \<Rightarrow>
          Some (Replace [(''{namespace}'', namespace),
                         (''{tenantName}'', tenantName),
                         (''{sshEndpoint}'', host)]
                  (''{namespace}.{tenantName}@'' @ ''{sshEndpoint}'')))"

text \<open>
  What the process does that can be observed from outside, as a sequence of events.
  \<open>Fatal\<close> is \<open>log.Fatal\<close>, which logs and exits; \<open>Exit\<close> is \<open>os.Exit\<close>; \<open>Sleep\<close> is
  \<open>time.Sleep\<close> with its duration in seconds; \<open>NewReverseListener\<close> is one attempt to
  establish the tunnel connection; \<open>Listen\<close> is one run of the accept loop
  \<open>tun.Listen\<close>; \<open>DeviceName\<close> is one call of \<open>serv.SetDeviceName\<close>.
\<close>

datatype event =
    Usage
  | Fatal go_error
  | LogError string
  | Exit nat
  | SetLevel Level
  | Starting string string
  | NewServer
  | NewTunnel
  | DeviceName string
  | NewReverseListener
  | Sleep nat
  | Established string
  | Listen
  | Panic

text \<open>
  The reconnection loop (main.go, lines 215 to 246) runs for ever. What it meets in one
  iteration is one \<open>attempt\<close>: \<open>agent.newReverseListener()\<close> fails, or it succeeds and
  \<open>tun.Listen\<close> later returns, with an error or without. The loop is unfolded along a
  finite list of attempts; the events of the iterations are produced in order.
\<close>

datatype attempt = DialFails go_error | Accepts "go_error option"

fun supervisor :: "Agent \<Rightarrow> attempt list \<Rightarrow> event list" where
  "supervisor a [] = []"
| "supervisor a (DialFails e # rest) = NewReverseListener # Sleep 10 # supervisor a rest"
| "supervisor a (Accepts r # rest) =
     NewReverseListener #
     (case sshid (Namespace (authData a)) (Name (authData a)) (SSH a) of
        None \<Rightarrow> [Panic]
      | Some i \<Rightarrow>
          Established i # Listen #
          (case r of
             Some e \<Rightarrow> supervisor a rest
           | None \<Rightarrow> supervisor a rest))"

text \<open>
  A trace applies the backoff before every retry when each attempt but the first comes
  directly after a sleep of at least ten seconds.
\<close>

fun backs_off :: "event list \<Rightarrow> bool" where
  "backs_off (e # NewReverseListener # es) =
     ((case e of Sleep n \<Rightarrow> 10 \<le> n | _ \<Rightarrow> False) \<and> backs_off (NewReverseListener # es))"
| "backs_off (e # es) = backs_off es"
| "backs_off [] = True"

section \<open>Startup\<close>

record ConfigOptions =
  ServerAddress :: string
  PrivateKey :: string
  TenantID :: string
  KeepAliveInterval :: int
  PreferredHostname :: string
  PreferredIdentity :: string
  SingleUserPassword :: string
  LogLevel :: string

text \<open>
  What \<open>NewAgentServer\<close> meets at startup: the error of \<open>envconfig.Process("shellhub",
  &opts)\<close> if any, the options loaded, \<open>log.ParseLevel\<close> of logrus, the effective user
  id, the errors of \<open>NewAgent\<close> and of \<open>agent.initialize\<close> if any, and the agent these
  calls leave.
\<close>

record StartupEnv =
  Process_err :: "go_error option"
  opts :: ConfigOptions
  ParseLevel :: "string \<Rightarrow> go_error + Level"
  Geteuid :: nat
  NewAgent_err :: "go_error option"
  initialize_err :: "go_error option"
  agent :: Agent

text \<open>
  The lines logged at level error before each \<open>os.Exit(1)\<close> of lines 81 to 100, in order.
\<close>

definition invalid_level_lines :: "string list" where
  "invalid_level_lines = [''Invalid log level has been provided.'']"

definition root_single_user_lines :: "string list" where
  "root_single_user_lines =
     [''ShellHub agent cannot run as root when single-user mode is enabled.'',
      ''To disable single-user mode unset SHELLHUB_SINGLE_USER_PASSWORD env.'']"

definition no_password_lines :: "string list" where
  "no_password_lines =
     [''When running as non-root user you need to set password for single-user mode by SHELLHUB_SINGLE_USER_PASSWORD environment variable.'',
      ''You can use openssl passwd utility to generate password hash. The following algorithms are supported: bsd1, apr1, sha256, sha512.'',
      ''Example: SHELLHUB_SINGLE_USER_PASSWORD=$(openssl passwd -6)'',
      ''See man openssl-passwd for more information.'']"

text \<open>
  \<open>NewAgentServer\<close> up to the start of the reconnection loop (main.go, lines 68 to 246),
  followed by the events of that loop. The refresh loop of lines 249 to 262 runs beside
  it and is \<open>refresh_tick\<close> below.
\<close>

definition NewAgentServer :: "string \<Rightarrow> StartupEnv \<Rightarrow> attempt list \<Rightarrow> event list" where
  "NewAgentServer AgentVersion env atts =
     (case Process_err env of
        Some e \<Rightarrow> [Usage, Fatal e]
      | None \<Rightarrow>
          (case ParseLevel env (LogLevel (opts env)) of
             Inl e \<Rightarrow> map LogError invalid_level_lines @ [Exit 1]
           | Inr l \<Rightarrow>
               if Geteuid env = 0 \<and> SingleUserPassword (opts env) \<noteq> [] then
                 SetLevel l # map LogError root_single_user_lines @ [Exit 1]
               else if Geteuid env \<noteq> 0 \<and> SingleUserPassword (opts env) = [] then
                 SetLevel l # map LogError no_password_lines @ [Exit 1]
               else
                 SetLevel l #
                 Starting AgentVersion
                   (if SingleUserPassword (opts env) \<noteq> [] then ''single-user'' else ''multi-user'') #
                 (case NewAgent_err env of
                    Some e \<Rightarrow> [Fatal e]
                  | None \<Rightarrow>
                      (case initialize_err env of
                         Some e \<Rightarrow> [Fatal e]
                       | None \<Rightarrow>
                           NewServer # NewTunnel # DeviceName (Name (authData (agent env))) #
                           supervisor (agent env) atts))))"

text \<open>
  The fatal configuration errors of the claim: the log level does not parse, a
  single-user password is set while running as root, or none is set while running as
  another user.
\<close>

definition fatal_config :: "StartupEnv \<Rightarrow> bool" where
  "fatal_config env =
     ((case ParseLevel env (LogLevel (opts env)) of Inl e \<Rightarrow> True | Inr l \<Rightarrow> False)
      \<or> (Geteuid env = 0 \<and> SingleUserPassword (opts env) \<noteq> [])
      \<or> (Geteuid env \<noteq> 0 \<and> SingleUserPassword (opts env) = []))"

definition exits :: "event \<Rightarrow> bool" where
  "exits ev = (case ev of Exit n \<Rightarrow> True | Fatal e \<Rightarrow> True | _ \<Rightarrow> False)"

section \<open>The identity refresh loop\<close>

text \<open>
  One tick of the refresh loop (main.go, lines 251 to 262). \<open>agent.authorize\<close> is not
  among the source files; it is a parameter that returns its error, if any, and the agent
  as it leaves it. The result holds the agent, the server, and the arguments of the calls
  of \<open>serv.SetDeviceName\<close> made during the tick.
\<close>

record RefreshResult =
  ragent :: Agent
  rserv :: Server
  calls :: "string list"

definition refresh_tick ::
  "(Agent \<Rightarrow> go_error option \<times> Agent) \<Rightarrow> Agent \<Rightarrow> Server \<Rightarrow> RefreshResult" where
  "refresh_tick authorize a s =
     (let sessions' = map fst (Sessions s);
          a1 = a\<lparr>sessions := sessions'\<rparr>;
          (err, a2) = authorize a1
      in case err of
           Some e \<Rightarrow>
             \<lparr>ragent = a2, rserv = SetDeviceName (Name (authData a2)) s,
              calls = [Name (authData a2)]\<rparr>
         | None \<Rightarrow> \<lparr>ragent = a2, rserv = s, calls = []\<rparr>)"

section \<open>Concrete inputs\<close>

text \<open>
  The inputs at which the handlers are evaluated below. A session-open request for the id
  \<open>abc\<close> whose stream is the connection 7 and whose peer disconnects, while no other
  directive takes effect; the same session, during which another session \<open>xyz\<close> is
  opened and closed and the device is renamed; one whose hijack
  succeeds but whose context holds no connection; one whose hijack fails; a server with an
  empty registry.
\<close>

definition open_abc :: ConnRequest where
  "open_abc = \<lparr>is_Hijacker = True, Hijack_err = None, vars_id = ''abc'',
                 ctx_http_conn = Some 7, session_end = PeerDisconnect, during = []\<rparr>"

definition open_abc_busy :: ConnRequest where
  "open_abc_busy = \<lparr>is_Hijacker = True, Hijack_err = None, vars_id = ''abc'',
                      ctx_http_conn = Some 7, session_end = PeerDisconnect,
                      during = [OpenDirective ''xyz'' 9, NameRefresh ''device-43'',
                                CloseDirective ''xyz'']\<rparr>"

definition open_no_conn :: ConnRequest where
  "open_no_conn = \<lparr>is_Hijacker = True, Hijack_err = None, vars_id = ''abc'',
                     ctx_http_conn = None, session_end = Success, during = []\<rparr>"

definition open_hijack_fails :: ConnRequest where
  "open_hijack_fails = \<lparr>is_Hijacker = True, Hijack_err = Some (Err ''hijack failed''),
                          vars_id = ''abc'', ctx_http_conn = Some 7, session_end = Success,
                          during = []\<rparr>"

definition server0 :: Server where
  "server0 = \<lparr>Sessions = [], deviceName = ''device-42''\<rparr>"

text \<open>
  A proxy request for the path \<open>/status\<close> in the namespace \<open>acme\<close>. Its URL is the one
  a Go server gives a request received as \<open>GET /http-proxy\<close>: no scheme, no host, the
  path. It is the cell 0 of the store; the next free address is 1.
\<close>

definition proxy_request :: Request where
  "proxy_request = \<lparr>RemoteAddr = ''10.0.0.1:4000'',
                      Header = [(''X-Namespace'', [''acme'']), (''X-Path'', [''/status''])],
                      URLp = 0\<rparr>"

definition proxy_store :: Store where
  "proxy_store = \<lparr>cells = (\<lambda>a. \<lparr>Scheme = [], Host = [], Path = ''/http-proxy''\<rparr>), free = 1\<rparr>"

text \<open>
  The local service is down; the local service answers and the copy ends with
  \<open>io.ErrUnexpectedEOF\<close>; the local service answers and the copy ends without error;
  the write of the request fails.
\<close>

definition service_down :: ProxyEnv where
  "service_down = \<lparr>Dial = Inl (Err ''connection refused''), URL_Parse = Parse_abs_path,
                     Write_err = None, Hijack = Inr 2, Copy_err = None\<rparr>"

definition copy_cut_short :: ProxyEnv where
  "copy_cut_short = \<lparr>Dial = Inr 1, URL_Parse = Parse_abs_path,
                       Write_err = None, Hijack = Inr 2, Copy_err = Some ErrUnexpectedEOF\<rparr>"

definition copy_complete :: ProxyEnv where
  "copy_complete = \<lparr>Dial = Inr 1, URL_Parse = Parse_abs_path,
                      Write_err = None, Hijack = Inr 2, Copy_err = None\<rparr>"

definition write_fails :: ProxyEnv where
  "write_fails = \<lparr>Dial = Inr 1, URL_Parse = Parse_abs_path,
                    Write_err = Some (Err ''broken pipe''), Hijack = Inr 2, Copy_err = None\<rparr>"

text \<open>
  The agent of the spec's example, a startup whose log level does not parse, and two
  authorizations: one that fails and one that succeeds and renames the device.
\<close>

definition agent0 :: Agent where
  "agent0 = \<lparr>sessions = [], authData = \<lparr>Name = ''device-42'', Namespace = ''acme''\<rparr>,
               SSH = ''ssh.example.com:22''\<rparr>"

definition bad_level :: StartupEnv where
  "bad_level =
     \<lparr>Process_err = None,
      opts = \<lparr>ServerAddress = ''https://cloud.example.com'', PrivateKey = ''/etc/shellhub.key'',
               TenantID = ''t-1'', KeepAliveInterval = 30, PreferredHostname = [],
               PreferredIdentity = [], SingleUserPassword = [], LogLevel = ''loud''\<rparr>,
      ParseLevel = (\<lambda>s. if s = ''info'' then Inr InfoLevel
                          else Inl (Err ''not a valid logrus Level'')),
      Geteuid = 0, NewAgent_err = None, initialize_err = None, agent = agent0\<rparr>"

definition authorize_fails :: "Agent \<Rightarrow> go_error option \<times> Agent" where
  "authorize_fails a = (Some (Err ''unauthorized''), a)"

definition authorize_renames :: "Agent \<Rightarrow> go_error option \<times> Agent" where
  "authorize_renames a = (None, a\<lparr>authData := (authData a)\<lparr>Name := ''device-43''\<rparr>\<rparr>)"

section \<open>The session-open directive\<close>

text \<open>
  Directives that do not name a session id leave its entry as it is.
\<close>

lemma handle_directive_other:
  "\<not> touches k d \<Longrightarrow> map_of (Sessions (handle_directive d s)) k = map_of (Sessions s) k"
  by (cases d) (auto simp add: CloseSession_def SetDeviceName_def update_conv')

lemma meanwhile_untouched:
  "untouched k ds \<Longrightarrow> map_of (Sessions (meanwhile ds s)) k = map_of (Sessions s) k"
proof (induction ds arbitrary: s)
  case Nil
  then show ?case by simp
next
  case (Cons d ds)
  then show ?case by (simp add: handle_directive_other)
qed

text \<open>
  Claim C1, as the code has it. For every session-open request that registers a stream
  under its id, for every way in which the handling of the stream ends (success, protocol
  error or peer disconnect) and for every sequence of directives that take effect during
  the session: when the handler returns it has closed the stream and made no reply, and
  it has not removed the entry itself; the server is the one those directives leave,
  starting from the former registry with the id mapped to the stream. So unless one of
  those directives names the id, the entry of the id is still there and holds the closed
  stream.
\<close>

theorem ConnHandler_keeps_entry:
  assumes "registers r c"
  shows "closed (ConnHandler v (r\<lparr>session_end := how\<rparr>) s) = [c]
    \<and> reply (ConnHandler v (r\<lparr>session_end := how\<rparr>) s) = None
    \<and> serv (ConnHandler v (r\<lparr>session_end := how\<rparr>) s)
        = meanwhile (during r) (s\<lparr>Sessions := AList.update (vars_id r) c (Sessions s)\<rparr>)
    \<and> (untouched (vars_id r) (during r) \<longrightarrow>
          map_of (Sessions (serv (ConnHandler v (r\<lparr>session_end := how\<rparr>) s))) (vars_id r)
            = Some c)"
  using assms
  by (simp add: registers_def ConnHandler_def HandleConn_def meanwhile_untouched update_conv')

theorem ConnHandler_keeps_entry_witness:
  "registers open_abc_busy 7
   \<and> untouched ''abc'' (during open_abc_busy)
   \<and> map_of (Sessions (serv (ConnHandler ''1.0'' (open_abc_busy\<lparr>session_end := ProtocolError\<rparr>)
        server0))) ''abc'' = Some 7
   \<and> closed (ConnHandler ''1.0'' (open_abc_busy\<lparr>session_end := ProtocolError\<rparr>) server0) = [7]"
proof -
  have h: "registers open_abc_busy 7"
    by (simp add: registers_def open_abc_busy_def)
  have u: "untouched (vars_id open_abc_busy) (during open_abc_busy)"
    by (simp add: open_abc_busy_def)
  have i: "vars_id open_abc_busy = ''abc''"
    by (simp add: open_abc_busy_def)
  show ?thesis
    using h u i ConnHandler_keeps_entry [OF h, of "''1.0''" ProtocolError server0]
    by (simp add: meanwhile_untouched update_conv')
qed

text \<open>
  The claim as stated fails: the session \<open>abc\<close> is registered on an empty registry, no
  other directive takes effect, its peer disconnects, the handler returns; the key \<open>abc\<close> is still in the registry and the
  stream it maps to has been closed.
\<close>

theorem ConnHandler_leaves_stale_entry:
  "registers open_abc 7
   \<and> map_of (Sessions (serv (ConnHandler ''1.0'' open_abc server0))) ''abc'' \<noteq> None
   \<and> 7 \<in> set (closed (ConnHandler ''1.0'' open_abc server0))
   \<and> map_of (Sessions server0) ''abc'' = None"
  by (simp add: registers_def open_abc_def server0_def ConnHandler_def HandleConn_def)

text \<open>
  Claim C5, as the code has it. For every session-open request whose handler fails to
  obtain a raw duplex stream, the handler leaves the server state, and so the registry, as
  it was and closes nothing. When the transport is not hijack-capable, or the hijack fails,
  it replies with status 500 before returning. When the hijack succeeds and the connection
  cannot be recovered from the request context, it makes no reply: it logs one warning and
  returns.
\<close>

theorem ConnHandler_no_raw_stream:
  assumes "no_raw_stream r"
  shows "serv (ConnHandler v r s) = s
    \<and> closed (ConnHandler v r s) = []
    \<and> reply (ConnHandler v r s) =
        (if \<not> is_Hijacker r then
           Some (StatusInternalServerError, ''webserver doesn't support hijacking'' @ [CHR 0x0A])
         else if Hijack_err r \<noteq> None then
           Some (StatusInternalServerError, ''failed to hijack connection'' @ [CHR 0x0A])
         else None)
    \<and> map level (logged (ConnHandler v r s)) =
        (if is_Hijacker r \<and> Hijack_err r = None then [WarnLevel] else [])"
  using assms
  by (auto simp add: no_raw_stream_def ConnHandler_def http_Error_def split: option.splits)

theorem ConnHandler_no_raw_stream_witness:
  "no_raw_stream open_hijack_fails
   \<and> serv (ConnHandler ''1.0'' open_hijack_fails server0) = server0
   \<and> reply (ConnHandler ''1.0'' open_hijack_fails server0)
       = Some (500, ''failed to hijack connection'' @ [CHR 0x0A])"
proof -
  have h: "no_raw_stream open_hijack_fails"
    by (simp add: no_raw_stream_def open_hijack_fails_def)
  show ?thesis
    using h ConnHandler_no_raw_stream [OF h, of "''1.0''" server0]
    by (simp add: open_hijack_fails_def StatusInternalServerError_def)
qed

text \<open>
  The claim as stated fails: the hijack succeeds, the request context holds no connection;
  no raw stream is obtained and the handler returns without any reply.
\<close>

theorem ConnHandler_returns_without_reply:
  "no_raw_stream open_no_conn
   \<and> reply (ConnHandler ''1.0'' open_no_conn server0) = None
   \<and> map message (logged (ConnHandler ''1.0'' open_no_conn server0)) = [''Type assertion failed'']"
  by (simp add: no_raw_stream_def open_no_conn_def ConnHandler_def)

section \<open>The HTTP proxy exchange\<close>

text \<open>
  When \<open>r.Write\<close> is called, the URL of the request is the value returned by
  \<open>(*URL).Parse\<close>, whatever that function is and whether the write succeeds or not: the
  new cell is not the cell whose scheme was assigned.
\<close>

lemma written_is_Parse_result:
  assumes "URLp r \<noteq> free h"
    and "Dial env = Inr c"
    and "URL_Parse env (cells h (URLp r)) (Header_Get (Header r) ''X-Path'') = Inr u"
  shows "written (HTTPHandler v env h r) = Some u"
  using assms
  by (auto simp add: HTTPHandler_def replyError_def alloc_def Let_def
      split: sum.splits option.splits prod.splits)

text \<open>
  Claim C2, as the code has it. For every HTTP proxy exchange that reaches the byte copy
  of step 4: the handler escalates the outcome of the copy (one entry at level error and
  an \<open>http.Error\<close> with status 500 and the message "failed to copy response from device
  service to client") exactly when the copy ends with an unexpected end-of-stream error;
  when the copy ends without error, or with any other error, nothing is logged and no
  error reply is made.
\<close>

theorem HTTPHandler_copy_outcome:
  assumes "reaches_copy env h r"
  shows "preply (HTTPHandler v env h r) =
      (if copy_unexpected_eof env then
         Some (StatusInternalServerError,
               ''failed to copy response from device service to client'' @ [CHR 0x0A])
       else None)
    \<and> map level (plogged (HTTPHandler v env h r)) =
        (if copy_unexpected_eof env then [ErrorLevel] else [])"
  using assms
  by (auto simp add: reaches_copy_def HTTPHandler_def replyError_def replyError_entry_def
      copy_unexpected_eof_def http_Error_def alloc_def Let_def
      split: sum.splits option.splits prod.splits)

theorem HTTPHandler_copy_outcome_witness:
  "reaches_copy copy_complete proxy_store proxy_request
   \<and> \<not> copy_unexpected_eof copy_complete
   \<and> preply (HTTPHandler ''1.0'' copy_complete proxy_store proxy_request) = None
   \<and> plogged (HTTPHandler ''1.0'' copy_complete proxy_store proxy_request) = []"
proof -
  have h: "reaches_copy copy_complete proxy_store proxy_request"
    by (simp add: reaches_copy_def copy_complete_def Parse_abs_path_def)
  have n: "\<not> copy_unexpected_eof copy_complete"
    by (simp add: copy_unexpected_eof_def copy_complete_def)
  show ?thesis
    using h n HTTPHandler_copy_outcome [OF h, of "''1.0''"]
    by simp
qed

text \<open>
  The claim as stated fails: the exchange reaches the copy, the copy ends with
  \<open>io.ErrUnexpectedEOF\<close>, and the handler logs an error and makes the error reply with
  status 500.
\<close>

theorem HTTPHandler_escalates_unexpected_eof:
  "reaches_copy copy_cut_short proxy_store proxy_request
   \<and> Copy_err copy_cut_short = Some ErrUnexpectedEOF
   \<and> preply (HTTPHandler ''1.0'' copy_cut_short proxy_store proxy_request)
       = Some (500, ''failed to copy response from device service to client'' @ [CHR 0x0A])
   \<and> map level (plogged (HTTPHandler ''1.0'' copy_cut_short proxy_store proxy_request))
       = [ErrorLevel]"
  by (simp add: copy_cut_short_def proxy_store_def proxy_request_def reaches_copy_def
      HTTPHandler_def replyError_def replyError_entry_def http_Error_def
      StatusInternalServerError_def Parse_abs_path_def alloc_def Header_Get_def)

text \<open>
  Claim C3, as the code has it. For every HTTP proxy exchange that fails before the
  hijack of the response writer (dial failure, URL parse failure or request write
  failure), the handler replies with status 500 and a body that is one of three fixed
  messages followed by a newline. The
  remote address, the namespace and the path are not part of the reply: they are the
  fields \<open>remote\<close>, \<open>namespace\<close> and \<open>path\<close> of the one entry the handler logs at
  level error, with that message.
\<close>

theorem HTTPHandler_fails_before_hijack:
  assumes "fails_before_hijack env h r"
  shows "\<exists>msg. msg \<in> set [''failed to connect to HTTP the server on device'',
                          ''failed to parse URL'',
                          ''failed to write request to the server on device'']
     \<and> preply (HTTPHandler v env h r) = Some (StatusInternalServerError, msg @ [CHR 0x0A])
     \<and> map level (plogged (HTTPHandler v env h r)) = [ErrorLevel]
     \<and> map message (plogged (HTTPHandler v env h r)) = [msg]
     \<and> map data (plogged (HTTPHandler v env h r)) =
          [[(''remote'', RemoteAddr r),
            (''namespace'', Header_Get (Header r) ''X-Namespace''),
            (''path'', Header_Get (Header r) ''X-Path''),
            (''version'', v)]]"
  using assms
  by (auto simp add: fails_before_hijack_def HTTPHandler_def replyError_def replyError_entry_def
      http_Error_def alloc_def Let_def split: sum.splits option.splits prod.splits)

theorem HTTPHandler_fails_before_hijack_witness:
  "fails_before_hijack write_fails proxy_store proxy_request
   \<and> map data (plogged (HTTPHandler ''1.0'' write_fails proxy_store proxy_request)) =
        [[(''remote'', ''10.0.0.1:4000''), (''namespace'', ''acme''), (''path'', ''/status''),
          (''version'', ''1.0'')]]
   \<and> map level (plogged (HTTPHandler ''1.0'' write_fails proxy_store proxy_request)) = [ErrorLevel]"
proof -
  have h: "fails_before_hijack write_fails proxy_store proxy_request"
    by (simp add: fails_before_hijack_def write_fails_def Parse_abs_path_def)
  show ?thesis
    using h HTTPHandler_fails_before_hijack [OF h, of "''1.0''"]
    by (auto simp add: proxy_request_def Header_Get_def)
qed

text \<open>
  The claim as stated fails: the proxy directive for the path \<open>/status\<close> and the
  namespace \<open>acme\<close> is dispatched while the local service is down; the reply has status
  500 and its body contains neither \<open>acme\<close> nor \<open>/status\<close>.
\<close>

theorem HTTPHandler_reply_without_context:
  "fails_before_hijack service_down proxy_store proxy_request
   \<and> preply (HTTPHandler ''1.0'' service_down proxy_store proxy_request)
       = Some (500, ''failed to connect to HTTP the server on device'' @ [CHR 0x0A])
   \<and> \<not> Contains (''failed to connect to HTTP the server on device'' @ [CHR 0x0A]) ''acme''
   \<and> \<not> Contains (''failed to connect to HTTP the server on device'' @ [CHR 0x0A]) ''/status''"
  by (simp add: service_down_def proxy_store_def proxy_request_def fails_before_hijack_def
      HTTPHandler_def replyError_def http_Error_def StatusInternalServerError_def)

text \<open>
  Claim C6, evaluated on the code. The proxy request for \<open>/status\<close>, whose URL has no
  scheme, is forwarded to a local service that answers. The request written to the local
  service carries the path \<open>/status\<close> and an empty scheme, not \<open>http\<close>: the assignment
  of the scheme went to the cell 0, which \<open>r.URL\<close> pointed to before it was redirected
  to the new cell 1.
\<close>

theorem HTTPHandler_written_scheme:
  "written (HTTPHandler ''1.0'' copy_complete proxy_store proxy_request)
     = Some \<lparr>Scheme = [], Host = [], Path = ''/status''\<rparr>
   \<and> URLp (request (HTTPHandler ''1.0'' copy_complete proxy_store proxy_request)) = 1
   \<and> cells (store (HTTPHandler ''1.0'' copy_complete proxy_store proxy_request)) 0
       = \<lparr>Scheme = ''http'', Host = [], Path = ''/http-proxy''\<rparr>"
  by (simp add: copy_complete_def proxy_store_def proxy_request_def HTTPHandler_def
      Parse_abs_path_def alloc_def Header_Get_def)

section \<open>The connection identifier\<close>

lemma Split_from_colon:
  "\<exists>rest. Split_from '':'' 0 cur s = (rev cur @ takeWhile (\<lambda>c. c \<noteq> CHR '':'') s) # rest"
proof (induction s arbitrary: cur)
  case Nil
  then show ?case by simp
next
  case (Cons a s)
  show ?case
  proof (cases "a = CHR '':''")
    case True
    then show ?thesis by simp
  next
    case False
    then show ?thesis using Cons.IH [of "a # cur"] by simp
  qed
qed

lemma Replace_template:
  "Replace [(''{namespace}'', ns), (''{tenantName}'', tn), (''{sshEndpoint}'', host)]
     (''{namespace}.{tenantName}@'' @ ''{sshEndpoint}'') = ns @ ''.'' @ tn @ ''@'' @ host"
  by (simp add: Replace_def)

lemma sshid_takeWhile:
  "sshid ns tn ep = Some (ns @ ''.'' @ tn @ ''@'' @ takeWhile (\<lambda>c. c \<noteq> CHR '':'') ep)"
proof -
  obtain rest where "Split ep '':'' = takeWhile (\<lambda>c. c \<noteq> CHR '':'') ep # rest"
    using Split_from_colon [of "[]" ep] by (auto simp add: Split_def)
  then show ?thesis
    using Replace_template [of ns tn "takeWhile (\<lambda>c. c \<noteq> CHR '':'') ep"]
    by (simp add: sshid_def)
qed

lemma takeWhile_host:
  "CHR '':'' \<notin> set host \<Longrightarrow> takeWhile (\<lambda>c. c \<noteq> CHR '':'') (host @ CHR '':'' # port) = host"
  by (induction host) auto

lemma takeWhile_no_port:
  "CHR '':'' \<notin> set host \<Longrightarrow> takeWhile (\<lambda>c. c \<noteq> CHR '':'') host = host"
  by (induction host) auto

text \<open>
  Claim C8, as the code has it. The connection identifier never panics and is the
  namespace, a dot, the tenant name, an at sign and the SSH endpoint cut at its first
  colon, whatever the three strings are (the values substituted are not scanned again).
  For an endpoint that is a host without a colon, alone or followed by a colon and a
  port, that is the host with the port suffix stripped; the example of the spec is such
  an endpoint.
\<close>

theorem sshid_format:
  "sshid ns tn ep = Some (ns @ ''.'' @ tn @ ''@'' @ takeWhile (\<lambda>c. c \<noteq> CHR '':'') ep)
   \<and> (CHR '':'' \<notin> set host \<longrightarrow>
         sshid ns tn (host @ '':'' @ port) = Some (ns @ ''.'' @ tn @ ''@'' @ host)
         \<and> sshid ns tn host = Some (ns @ ''.'' @ tn @ ''@'' @ host))"
  by (simp add: sshid_takeWhile takeWhile_host takeWhile_no_port)

theorem sshid_format_witness:
  "sshid ''acme'' ''device-42'' ''ssh.example.com:22'' = Some ''acme.device-42@ssh.example.com''"
proof -
  have h: "CHR '':'' \<notin> set ''ssh.example.com''"
    by simp
  show ?thesis
    using h sshid_format [of "''acme''" "''device-42''" "''ssh.example.com:22''" "''ssh.example.com''" "''22''"]
    by simp
qed

text \<open>
  The claim as stated fails: the endpoint \<open>[::1]:22\<close> has the host portion \<open>[::1]\<close>
  and the port suffix \<open>:22\<close>; the identifier ends with the opening bracket alone, not
  with the host portion.
\<close>

theorem sshid_bracketed_host:
  "sshid ''acme'' ''device-42'' ''[::1]:22'' = Some ''acme.device-42@[''
   \<and> sshid ''acme'' ''device-42'' ''[::1]:22'' \<noteq> Some (''acme.device-42@'' @ ''[::1]'')"
  by (simp add: sshid_takeWhile)

section \<open>The reconnection loop\<close>

text \<open>
  After a failed dial the loop sleeps ten seconds before the next attempt, so a run of
  failed dials applies the backoff before every retry.
\<close>

lemma supervisor_dial_failure:
  "supervisor a (DialFails e # rest) = NewReverseListener # Sleep 10 # supervisor a rest"
  by simp

lemma supervisor_dial_failures_back_off: "backs_off (supervisor a (map DialFails es))"
proof (induction es)
  case Nil
  then show ?case by simp
next
  case (Cons e es)
  then show ?case by (cases es) simp_all
qed

text \<open>
  Claim C4, evaluated on the code. The tunnel is established, the accept loop returns
  because the connection was lost, and the next dial fails. The second attempt comes
  directly after the return of the accept loop, with no sleep between them; the sleep of
  ten seconds comes only after the failed dial. The trace does not apply the backoff
  before every retry.
\<close>

theorem supervisor_retries_at_once:
  "supervisor agent0 [Accepts (Some (Err ''connection lost'')), DialFails (Err ''refused'')]
     = [NewReverseListener, Established ''acme.device-42@ssh.example.com'', Listen,
        NewReverseListener, Sleep 10]
   \<and> \<not> backs_off (supervisor agent0
           [Accepts (Some (Err ''connection lost'')), DialFails (Err ''refused'')])"
  by (simp add: agent0_def sshid_takeWhile)

section \<open>Startup checks\<close>

text \<open>
  Claim C9. For every startup with a fatal configuration error (the log level does not
  parse, a single-user password is set while running as root, or none is set while
  running as another user), whatever the reconnection loop would have met: the events of
  the process end with its exit, which is \<open>os.Exit(1)\<close> when the environment was loaded
  without error, and they contain neither the creation of the tunnel, nor an attempt to
  establish the tunnel connection, nor a run of the accept loop.
\<close>

theorem NewAgentServer_fatal_config:
  assumes "fatal_config env"
  shows "NewAgentServer v env atts \<noteq> []
    \<and> exits (last (NewAgentServer v env atts))
    \<and> (Process_err env = None \<longrightarrow> last (NewAgentServer v env atts) = Exit 1)
    \<and> NewTunnel \<notin> set (NewAgentServer v env atts)
    \<and> NewReverseListener \<notin> set (NewAgentServer v env atts)
    \<and> Listen \<notin> set (NewAgentServer v env atts)"
  using assms
  by (auto simp add: fatal_config_def NewAgentServer_def exits_def
      split: option.splits sum.splits)

theorem NewAgentServer_fatal_config_witness:
  "fatal_config bad_level
   \<and> last (NewAgentServer ''1.0'' bad_level [Accepts None]) = Exit 1
   \<and> NewReverseListener \<notin> set (NewAgentServer ''1.0'' bad_level [Accepts None])"
proof -
  have h: "fatal_config bad_level"
    by (simp add: fatal_config_def bad_level_def)
  have p: "Process_err bad_level = None"
    by (simp add: bad_level_def)
  show ?thesis
    using h p NewAgentServer_fatal_config [OF h, of "''1.0''" "[Accepts None]"]
    by simp
qed

section \<open>The refresh tick\<close>

text \<open>
  Claim C10. On each tick of the refresh loop, \<open>serv.SetDeviceName\<close> is called if and
  only if \<open>agent.authorize\<close>, called with the ids of the registry as the agent's sessions,
  returns an error; the call then passes the name of the agent's authentication data. On
  every tick whose authorization succeeds the server, and so the device name presented to
  session routing, is left as it was.
\<close>

theorem refresh_tick_SetDeviceName:
  "(calls (refresh_tick authorize a s) \<noteq> []
      \<longleftrightarrow> fst (authorize (a\<lparr>sessions := map fst (Sessions s)\<rparr>)) \<noteq> None)
   \<and> (fst (authorize (a\<lparr>sessions := map fst (Sessions s)\<rparr>)) = None \<longrightarrow>
         rserv (refresh_tick authorize a s) = s)
   \<and> (fst (authorize (a\<lparr>sessions := map fst (Sessions s)\<rparr>)) \<noteq> None \<longrightarrow>
         calls (refresh_tick authorize a s)
           = [Name (authData (ragent (refresh_tick authorize a s)))]
         \<and> deviceName (rserv (refresh_tick authorize a s))
           = Name (authData (ragent (refresh_tick authorize a s))))
   \<and> ragent (refresh_tick authorize a s)
       = snd (authorize (a\<lparr>sessions := map fst (Sessions s)\<rparr>))"
  by (auto simp add: refresh_tick_def SetDeviceName_def Let_def
      split: prod.splits option.splits)

theorem refresh_tick_SetDeviceName_witness:
  "calls (refresh_tick authorize_fails agent0 server0) = [''device-42'']
   \<and> calls (refresh_tick authorize_renames agent0 server0) = []
   \<and> rserv (refresh_tick authorize_renames agent0 server0) = server0
   \<and> Name (authData (ragent (refresh_tick authorize_renames agent0 server0))) = ''device-43''"
proof -
  have f: "fst (authorize_fails (agent0\<lparr>sessions := map fst (Sessions server0)\<rparr>)) \<noteq> None"
    by (simp add: authorize_fails_def)
  have g: "fst (authorize_renames (agent0\<lparr>sessions := map fst (Sessions server0)\<rparr>)) = None"
    by (simp add: authorize_renames_def)
  show ?thesis
    using f g refresh_tick_SetDeviceName [of authorize_fails agent0 server0]
      refresh_tick_SetDeviceName [of authorize_renames agent0 server0]
    by (simp add: authorize_fails_def authorize_renames_def agent0_def)
qed

section \<open>The session-close directive\<close>

lemma CloseSession_absent: "map_of (Sessions (CloseSession i s)) i = None"
  by (simp add: CloseSession_def map_of_eq_None_iff delete_notin_dom)

lemma CloseSession_twice: "CloseSession i (CloseSession i s) = CloseSession i s"
  by (simp add: CloseSession_def delete_idem)

text \<open>
  Claim C7. A session-close directive is idempotent. For every session id \<open>i\<close> and every
  server state: the first directive produces no error reply and leaves \<open>i\<close> absent from
  the registry; the second directive, applied to the state the first one left, produces no
  error reply either and leaves the whole server state, and so the contents and the size of
  the registry, as the first one left them.
\<close>

theorem CloseHandler_idempotent:
  "snd (CloseHandler i s) = None
   \<and> map_of (Sessions (fst (CloseHandler i s))) i = None
   \<and> CloseHandler i (fst (CloseHandler i s)) = CloseHandler i s
   \<and> Sessions (fst (CloseHandler i (fst (CloseHandler i s)))) = Sessions (fst (CloseHandler i s))
   \<and> length (Sessions (fst (CloseHandler i (fst (CloseHandler i s)))))
       = length (Sessions (fst (CloseHandler i s)))"
  by (simp add: CloseHandler_def CloseSession_absent CloseSession_twice)

end
